theory Spec2Isabelle
  imports Complex_Main
begin

section \<open>JavaScript values\<close>

text \<open>
  The values that occur in option records, JSON records and event arguments of the
  library. Numbers are modelled as rationals (exact arithmetic; NaN, infinities and
  rounding are outside the model), strings as character lists, a character standing for
  a code unit of the JavaScript string (those below 256).
\<close>

datatype jsval =
    JUndefined
  | JNull
  | JBool bool
  | JNum rat
  | JStr string
  | JObj "(string \<times> jsval) list"

text \<open>The result of running a piece of JavaScript: it returns or it throws a value.\<close>

datatype 'a outcome = Returned 'a | Threw jsval

section \<open>EventEmitter\<close>

text \<open>
  A callback is a JavaScript function object: it has an identity (\<open>off\<close> compares
  with \<open>!==\<close>) and a behaviour. Called with the argument list it acts on the host
  state \<open>'s\<close> and returns or throws; what it did to the state before throwing stays done.
\<close>

record 's callback =
  lid :: nat
  run :: "jsval list \<Rightarrow> 's \<Rightarrow> unit outcome \<times> 's"

text \<open>
  \<open>this.events\<close>: the table from event name to the array of callbacks. The world a
  call of \<open>emit\<close> acts on: the host state the callbacks share, the lines written
  with \<open>console.error\<close> (event name and caught value), and a ghost trace \<open>calls\<close> of
  the callback invocations made (callback identity and arguments), in order.
\<close>

type_synonym 's emitter = "string \<Rightarrow> 's callback list option"




definition off :: "string \<Rightarrow> 's callback \<Rightarrow> 's emitter \<Rightarrow> 's emitter" where
  "off event callback events =
     (case events event of
        None \<Rightarrow> events
      | Some cbs \<Rightarrow>
          (let kept = filter (\<lambda>cb. lid cb \<noteq> lid callback) cbs
           in if length kept = 0 then events(event := None) else events(event \<mapsto> kept)))"

definition removeAllListeners :: "string option \<Rightarrow> 's emitter \<Rightarrow> 's emitter" where
  "removeAllListeners event events =
     (case event of
        Some e \<Rightarrow> (if e \<noteq> [] then events(e := None) else (\<lambda>_. None))
      | None \<Rightarrow> (\<lambda>_. None))"

definition listenerCount :: "string \<Rightarrow> 's emitter \<Rightarrow> nat" where
  "listenerCount event events =
     (case events event of Some cbs \<Rightarrow> length cbs | None \<Rightarrow> 0)"







section \<open>P5Component\<close>

text \<open>
  The fields of the class, \<open>_x\<close> of the source being \<open>x\<close> here (\<open>_text\<close> is
  \<open>text_p\<close> and \<open>_top\<close> is \<open>top_p\<close>). \<open>className\<close> is \<open>this.constructor.name\<close>.
  \<open>p5Instance\<close> and \<open>canvas\<close> say whether the field holds an object or \<open>null\<close>.
  \<open>_parent\<close> and \<open>_containerElement\<close> are never read and are left out.

  P5Component extends EventEmitter. What a call \<open>this.emit(event, ...args)\<close> does with
  the registered listeners is the model above, and it always returns; a component method
  records the call in \<open>effects\<close>, together with the calls it makes on its rendering
  surface, in the order the method makes them. Listeners are host code and are not part
  of a component's state.
\<close>

datatype cstate = Normal | Hover | Active | Disabled | Focused

datatype effect =
    Emit string "jsval list"
  | Redraw
  | ResizeCanvas rat rat
  | CanvasPosition rat rat
  | CanvasDisplay bool
  | RemoveInstance

record component =
  className :: string
  name :: string
  text_p :: string
  left :: rat
  top_p :: rat
  width :: rat
  height :: rat
  enabled :: bool
  visible :: bool
  backColor :: string
  foreColor :: string
  fontSize :: rat
  fontFamily :: string
  borderColor :: string
  borderWidth :: rat
  tabIndex :: rat
  state :: cstate
  p5Instance :: bool
  canvas :: bool
  mouseInside :: bool
  mousePressed :: bool
  effects :: "effect list"

text \<open>
  The options record of a constructor: a key is \<open>None\<close> when the record does not have
  it, and holds a value of the documented type otherwise.
\<close>

record options =
  opt_name :: "string option"
  opt_text :: "string option"
  opt_left :: "rat option"
  opt_top :: "rat option"
  opt_width :: "rat option"
  opt_height :: "rat option"
  opt_enabled :: "bool option"
  opt_visible :: "bool option"
  opt_backColor :: "string option"
  opt_foreColor :: "string option"
  opt_fontSize :: "rat option"
  opt_fontFamily :: "string option"
  opt_borderColor :: "string option"
  opt_borderWidth :: "rat option"
  opt_tabIndex :: "rat option"

definition no_options :: options where
  "no_options =
     \<lparr>opt_name = None, opt_text = None, opt_left = None, opt_top = None, opt_width = None,
      opt_height = None, opt_enabled = None, opt_visible = None, opt_backColor = None,
      opt_foreColor = None, opt_fontSize = None, opt_fontFamily = None,
      opt_borderColor = None, opt_borderWidth = None, opt_tabIndex = None\<rparr>"

text \<open>
  \<open>options.k || d\<close> takes the default for every falsy value: a missing key, the number
  0, the empty string, \<open>false\<close>. \<open>options.k !== undefined ? options.k : d\<close> takes it
  only for a missing key.
\<close>

definition str_or :: "string option \<Rightarrow> string \<Rightarrow> string" where
  "str_or v d = (case v of None \<Rightarrow> d | Some s \<Rightarrow> if s = [] then d else s)"

definition num_or :: "rat option \<Rightarrow> rat \<Rightarrow> rat" where
  "num_or v d = (case v of None \<Rightarrow> d | Some n \<Rightarrow> if n = 0 then d else n)"

definition bool_or :: "bool option \<Rightarrow> bool \<Rightarrow> bool" where
  "bool_or v d = (case v of None \<Rightarrow> d | Some b \<Rightarrow> if b then b else d)"

definition defined_or :: "'a option \<Rightarrow> 'a \<Rightarrow> 'a" where
  "defined_or v d = (case v of None \<Rightarrow> d | Some x \<Rightarrow> x)"

text \<open>
  The constructor. \<open>now\<close> is the decimal rendering of \<open>Date.now()\<close>. \<open>_initP5\<close>
  creates the p5 instance; the canvas exists once p5 has called the sketch's \<open>setup\<close>.
  The class name is that of the class being constructed.
\<close>

definition init_component :: "string \<Rightarrow> string \<Rightarrow> 'a options_scheme \<Rightarrow> component" where
  "init_component cls now options =
     \<lparr>className = cls,
      name = str_or (opt_name options) (''component_'' @ now),
      text_p = str_or (opt_text options) [],
      left = num_or (opt_left options) 0,
      top_p = num_or (opt_top options) 0,
      width = num_or (opt_width options) 100,
      height = num_or (opt_height options) 30,
      enabled = defined_or (opt_enabled options) True,
      visible = defined_or (opt_visible options) True,
      backColor = str_or (opt_backColor options) ''#FFFFFF'',
      foreColor = str_or (opt_foreColor options) ''#000000'',
      fontSize = num_or (opt_fontSize options) 14,
      fontFamily = str_or (opt_fontFamily options) ''Arial'',
      borderColor = str_or (opt_borderColor options) ''#999999'',
      borderWidth = num_or (opt_borderWidth options) 1,
      tabIndex = num_or (opt_tabIndex options) 0,
      state = Normal,
      p5Instance = True,
      canvas = False,
      mouseInside = False,
      mousePressed = False,
      effects = []\<rparr>"

definition P5Component :: "string \<Rightarrow> 'a options_scheme \<Rightarrow> component" where
  "P5Component now options = init_component ''P5Component'' now options"

text \<open>
  The sketch's \<open>setup\<close>, which p5 calls once when the surface is ready: it creates
  and places the canvas and then calls the widget's own \<open>setup\<close>, which only
  configures the p5 instance for a base component, a button and a text box (and for a
  label is \<open>label_setup\<close> below).
\<close>

definition sketch_setup :: "'a component_scheme \<Rightarrow> 'a component_scheme" where
  "sketch_setup c =
     c\<lparr>canvas := True,
       effects := effects c @ [CanvasDisplay (visible c), CanvasPosition (left c) (top_p c)]\<rparr>"

subsection \<open>Emitting, redrawing, canvas management\<close>

definition this_emit :: "string \<Rightarrow> jsval list \<Rightarrow> 'a component_scheme \<Rightarrow> 'a component_scheme" where
  "this_emit event args c = c\<lparr>effects := effects c @ [Emit event args]\<rparr>"

definition redraw :: "'a component_scheme \<Rightarrow> 'a component_scheme" where
  "redraw c = (if p5Instance c then c\<lparr>effects := effects c @ [Redraw]\<rparr> else c)"

definition updatePosition :: "'a component_scheme \<Rightarrow> 'a component_scheme" where
  "updatePosition c =
     (if canvas c then c\<lparr>effects := effects c @ [CanvasPosition (left c) (top_p c)]\<rparr> else c)"

definition resizeCanvas :: "'a component_scheme \<Rightarrow> 'a component_scheme" where
  "resizeCanvas c =
     (if p5Instance c
      then redraw (c\<lparr>effects := effects c @ [ResizeCanvas (width c) (height c)]\<rparr>)
      else c)"

subsection \<open>Property setters\<close>

definition set_name :: "string \<Rightarrow> 'a component_scheme \<Rightarrow> 'a component_scheme" where
  "set_name v c = c\<lparr>name := v\<rparr>"

definition set_text :: "string \<Rightarrow> 'a component_scheme \<Rightarrow> 'a component_scheme" where
  "set_text v c = redraw (this_emit ''textChanged'' [JStr v] (c\<lparr>text_p := v\<rparr>))"

definition set_left :: "rat \<Rightarrow> 'a component_scheme \<Rightarrow> 'a component_scheme" where
  "set_left v c = updatePosition (c\<lparr>left := v\<rparr>)"

definition set_top :: "rat \<Rightarrow> 'a component_scheme \<Rightarrow> 'a component_scheme" where
  "set_top v c = updatePosition (c\<lparr>top_p := v\<rparr>)"

definition set_width :: "rat \<Rightarrow> 'a component_scheme \<Rightarrow> 'a component_scheme" where
  "set_width v c = resizeCanvas (c\<lparr>width := v\<rparr>)"

definition set_height :: "rat \<Rightarrow> 'a component_scheme \<Rightarrow> 'a component_scheme" where
  "set_height v c = resizeCanvas (c\<lparr>height := v\<rparr>)"

definition set_enabled :: "bool \<Rightarrow> 'a component_scheme \<Rightarrow> 'a component_scheme" where
  "set_enabled v c =
     redraw (this_emit ''enabledChanged'' [JBool v]
       (c\<lparr>enabled := v, state := (if v then Normal else Disabled)\<rparr>))"

definition set_visible :: "bool \<Rightarrow> 'a component_scheme \<Rightarrow> 'a component_scheme" where
  "set_visible v c =
     (let c1 = c\<lparr>visible := v\<rparr>;
          c2 = (if canvas c1 then c1\<lparr>effects := effects c1 @ [CanvasDisplay v]\<rparr> else c1)
      in this_emit ''visibleChanged'' [JBool v] c2)"

definition set_backColor :: "string \<Rightarrow> 'a component_scheme \<Rightarrow> 'a component_scheme" where
  "set_backColor v c = redraw (c\<lparr>backColor := v\<rparr>)"

definition set_foreColor :: "string \<Rightarrow> 'a component_scheme \<Rightarrow> 'a component_scheme" where
  "set_foreColor v c = redraw (c\<lparr>foreColor := v\<rparr>)"

definition set_fontSize :: "rat \<Rightarrow> 'a component_scheme \<Rightarrow> 'a component_scheme" where
  "set_fontSize v c = redraw (c\<lparr>fontSize := v\<rparr>)"

definition set_fontFamily :: "string \<Rightarrow> 'a component_scheme \<Rightarrow> 'a component_scheme" where
  "set_fontFamily v c = redraw (c\<lparr>fontFamily := v\<rparr>)"

definition set_borderColor :: "string \<Rightarrow> 'a component_scheme \<Rightarrow> 'a component_scheme" where
  "set_borderColor v c = redraw (c\<lparr>borderColor := v\<rparr>)"

definition set_borderWidth :: "rat \<Rightarrow> 'a component_scheme \<Rightarrow> 'a component_scheme" where
  "set_borderWidth v c = redraw (c\<lparr>borderWidth := v\<rparr>)"

subsection \<open>Pointer handlers, focus and blur\<close>

text \<open>
  The canvas calls the handlers; \<open>mx\<close> and \<open>my\<close> are \<open>mouseX\<close> and \<open>mouseY\<close> of the
  p5 instance at that moment.
\<close>

definition xy :: "rat \<Rightarrow> rat \<Rightarrow> jsval" where
  "xy mx my = JObj [(''x'', JNum mx), (''y'', JNum my)]"

definition handleMousePressed :: "rat \<Rightarrow> rat \<Rightarrow> 'a component_scheme \<Rightarrow> 'a component_scheme" where
  "handleMousePressed mx my c =
     (if \<not> enabled c then c
      else redraw (this_emit ''mouseDown'' [xy mx my] (c\<lparr>mousePressed := True, state := Active\<rparr>)))"

definition handleMouseReleased :: "rat \<Rightarrow> rat \<Rightarrow> 'a component_scheme \<Rightarrow> 'a component_scheme" where
  "handleMouseReleased mx my c =
     (if \<not> enabled c then c
      else
        (let c1 = c\<lparr>mousePressed := False\<rparr>;
             c2 = (if mouseInside c1
                   then this_emit ''click'' [xy mx my] (c1\<lparr>state := Hover\<rparr>)
                   else c1\<lparr>state := Normal\<rparr>)
         in redraw (this_emit ''mouseUp'' [xy mx my] c2)))"

definition handleMouseOver :: "'a component_scheme \<Rightarrow> 'a component_scheme" where
  "handleMouseOver c =
     (if \<not> enabled c then c
      else
        (let c1 = c\<lparr>mouseInside := True\<rparr>;
             c2 = (if \<not> mousePressed c1 then c1\<lparr>state := Hover\<rparr> else c1)
         in redraw (this_emit ''mouseEnter'' [] c2)))"

definition handleMouseOut :: "'a component_scheme \<Rightarrow> 'a component_scheme" where
  "handleMouseOut c =
     (if \<not> enabled c then c
      else
        (let c1 = c\<lparr>mouseInside := False\<rparr>;
             c2 = (if \<not> mousePressed c1 then c1\<lparr>state := Normal\<rparr> else c1)
         in redraw (this_emit ''mouseLeave'' [] c2)))"

definition enable :: "'a component_scheme \<Rightarrow> 'a component_scheme" where
  "enable c = set_enabled True c"

definition disable :: "'a component_scheme \<Rightarrow> 'a component_scheme" where
  "disable c = set_enabled False c"

definition focus :: "'a component_scheme \<Rightarrow> 'a component_scheme" where
  "focus c =
     (if enabled c then redraw (this_emit ''focus'' [] (c\<lparr>state := Focused\<rparr>)) else c)"

definition blur :: "'a component_scheme \<Rightarrow> 'a component_scheme" where
  "blur c =
     (if state c = Focused then redraw (this_emit ''blur'' [] (c\<lparr>state := Normal\<rparr>)) else c)"

definition destroy :: "'a component_scheme \<Rightarrow> 'a component_scheme" where
  "destroy c =
     (let c1 = this_emit ''destroy'' [] c;
          c2 = (if p5Instance c1
                then c1\<lparr>effects := effects c1 @ [RemoveInstance], p5Instance := False\<rparr>
                else c1)
      in c2\<lparr>canvas := False\<rparr>)"


section \<open>P5Button\<close>

record button = component +
  hoverColor :: string
  activeColor :: string
  disabledColor :: string
  disabledTextColor :: string
  cornerRadius :: rat

record button_options = options +
  opt_hoverColor :: "string option"
  opt_activeColor :: "string option"
  opt_disabledColor :: "string option"
  opt_disabledTextColor :: "string option"
  opt_cornerRadius :: "rat option"

text \<open>
  A subclass constructor passes \<open>{k: d, ..., ...options}\<close> to \<open>super\<close>: the key \<open>k\<close>
  of the record passed is that of \<open>options\<close> when \<open>options\<close> has it, and \<open>d\<close>
  otherwise.
\<close>

definition spread :: "'a \<Rightarrow> 'a option \<Rightarrow> 'a option" where
  "spread d v = (case v of None \<Rightarrow> Some d | Some x \<Rightarrow> Some x)"

definition button_super_options :: "'a options_scheme \<Rightarrow> 'a options_scheme" where
  "button_super_options options =
     options\<lparr>opt_width := spread 100 (opt_width options),
             opt_height := spread 30 (opt_height options),
             opt_text := spread ''Button'' (opt_text options),
             opt_backColor := spread ''#E0E0E0'' (opt_backColor options),
             opt_foreColor := spread ''#000000'' (opt_foreColor options),
             opt_borderColor := spread ''#999999'' (opt_borderColor options),
             opt_borderWidth := spread 1 (opt_borderWidth options),
             opt_fontSize := spread 14 (opt_fontSize options)\<rparr>"

definition P5Button :: "string \<Rightarrow> button_options \<Rightarrow> button" where
  "P5Button now options =
     component.extend (init_component ''P5Button'' now (button_super_options options))
       (button.fields
          (str_or (opt_hoverColor options) ''#D0D0D0'')
          (str_or (opt_activeColor options) ''#C0C0C0'')
          (str_or (opt_disabledColor options) ''#F5F5F5'')
          (str_or (opt_disabledTextColor options) ''#AAAAAA'')
          (defined_or (opt_cornerRadius options) 4))"

definition set_hoverColor :: "string \<Rightarrow> button \<Rightarrow> button" where
  "set_hoverColor v b = redraw (b\<lparr>hoverColor := v\<rparr>)"

definition set_activeColor :: "string \<Rightarrow> button \<Rightarrow> button" where
  "set_activeColor v b = redraw (b\<lparr>activeColor := v\<rparr>)"

definition set_disabledColor :: "string \<Rightarrow> button \<Rightarrow> button" where
  "set_disabledColor v b = redraw (b\<lparr>disabledColor := v\<rparr>)"

definition set_cornerRadius :: "rat \<Rightarrow> button \<Rightarrow> button" where
  "set_cornerRadius v b = redraw (b\<lparr>cornerRadius := v\<rparr>)"

section \<open>P5TextBox\<close>

text \<open>
  The fields the text box adds. \<open>passwordChar\<close> is a string or \<open>null\<close>. The blink
  timer and the flag it toggles (\<open>_cursorBlinkInterval\<close>, \<open>_cursorVisible\<close>) belong to
  drawing and are left out; the two listeners that the text box's \<open>setup\<close> registers
  on its own \<open>focus\<close> and \<open>blur\<close> events to start and stop that timer run, like
  every listener, inside \<open>emit\<close>.
\<close>

record textbox = component +
  placeholder :: string
  placeholderColor :: string
  maxLength :: rat
  readOnly :: bool
  passwordChar :: "string option"
  multiline :: bool
  textAlign :: string
  cursorPosition :: int
  selectionStart :: int
  selectionEnd :: int
  focusBorderColor :: string
  padding :: rat

record textbox_options = options +
  opt_placeholder :: "string option"
  opt_placeholderColor :: "string option"
  opt_maxLength :: "rat option"
  opt_readOnly :: "bool option"
  opt_passwordChar :: "string option"
  opt_multiline :: "bool option"
  opt_textAlign :: "string option"
  opt_focusBorderColor :: "string option"
  opt_padding :: "rat option"

definition textbox_super_options :: "'a options_scheme \<Rightarrow> 'a options_scheme" where
  "textbox_super_options options =
     options\<lparr>opt_width := spread 200 (opt_width options),
             opt_height := spread 30 (opt_height options),
             opt_text := spread [] (opt_text options),
             opt_backColor := spread ''#FFFFFF'' (opt_backColor options),
             opt_foreColor := spread ''#000000'' (opt_foreColor options),
             opt_borderColor := spread ''#999999'' (opt_borderColor options),
             opt_borderWidth := spread 1 (opt_borderWidth options),
             opt_fontSize := spread 14 (opt_fontSize options)\<rparr>"

definition P5TextBox :: "string \<Rightarrow> textbox_options \<Rightarrow> textbox" where
  "P5TextBox now options =
     (let super = init_component ''P5TextBox'' now (textbox_super_options options)
      in component.extend super
           (textbox.fields
              (str_or (opt_placeholder options) [])
              (str_or (opt_placeholderColor options) ''#AAAAAA'')
              (num_or (opt_maxLength options) 255)
              (bool_or (opt_readOnly options) False)
              (case opt_passwordChar options of
                 None \<Rightarrow> None | Some s \<Rightarrow> if s = [] then None else Some s)
              (bool_or (opt_multiline options) False)
              (str_or (opt_textAlign options) ''left'')
              (int (length (text_p super)))
              (- 1)
              (- 1)
              (str_or (opt_focusBorderColor options) ''#4A90E2'')
              (defined_or (opt_padding options) 5)))"

definition no_textbox_options :: textbox_options where
  "no_textbox_options =
     options.extend no_options
       (textbox_options.fields None None None None None None None None None)"

definition set_placeholder :: "string \<Rightarrow> textbox \<Rightarrow> textbox" where
  "set_placeholder v tb = redraw (tb\<lparr>placeholder := v\<rparr>)"

definition set_maxLength :: "rat \<Rightarrow> textbox \<Rightarrow> textbox" where
  "set_maxLength v tb = tb\<lparr>maxLength := v\<rparr>"

definition set_readOnly :: "bool \<Rightarrow> textbox \<Rightarrow> textbox" where
  "set_readOnly v tb = redraw (tb\<lparr>readOnly := v\<rparr>)"

definition set_passwordChar :: "string option \<Rightarrow> textbox \<Rightarrow> textbox" where
  "set_passwordChar v tb = redraw (tb\<lparr>passwordChar := v\<rparr>)"

definition set_multiline :: "bool \<Rightarrow> textbox \<Rightarrow> textbox" where
  "set_multiline v tb = tb\<lparr>multiline := v\<rparr>"

definition set_textAlign :: "string \<Rightarrow> textbox \<Rightarrow> textbox" where
  "set_textAlign v tb = redraw (tb\<lparr>textAlign := v\<rparr>)"

subsection \<open>Strings\<close>

text \<open>
  \<open>s.substring(start, end)\<close>: both indices are clamped to the string and swapped when
  \<open>start\<close> is the larger; \<open>s.substring(start)\<close> runs to the end of the string.
  \<open>s.charAt(i)\<close> is the empty string when \<open>i\<close> is not an index of \<open>s\<close>.
\<close>

definition substring :: "string \<Rightarrow> int \<Rightarrow> int \<Rightarrow> string" where
  "substring s start stop =
     (let n = int (length s);
          a = min (max start 0) n;
          b = min (max stop 0) n;
          lo = min a b;
          hi = max a b
      in take (nat (hi - lo)) (drop (nat lo) s))"

definition substring_from :: "string \<Rightarrow> int \<Rightarrow> string" where
  "substring_from s start = substring s start (int (length s))"

definition charAt :: "string \<Rightarrow> nat \<Rightarrow> string" where
  "charAt s i = (if i < length s then [s ! i] else [])"

subsection \<open>Keyboard handling\<close>

text \<open>
  The key constants are properties of the p5 instance, which is not part of the
  repository: each is the key code it holds, or \<open>None\<close> when the instance has no such
  property. \<open>keyCode\<close> is \<open>p.keyCode\<close> and \<open>key\<close> is \<open>p.key\<close>. The handlers' return
  value (\<open>false\<close> to suppress the browser's default) is not modelled.
\<close>

record p5keys =
  BACKSPACE :: "nat option"
  DELETE :: "nat option"
  LEFT_ARROW :: "nat option"
  RIGHT_ARROW :: "nat option"
  HOME :: "nat option"
  END :: "nat option"
  ENTER :: "nat option"

definition key_event :: "string \<Rightarrow> nat \<Rightarrow> jsval" where
  "key_event key keyCode = JObj [(''key'', JStr key), (''keyCode'', JNum (of_nat keyCode))]"

definition handleKeyPressed :: "p5keys \<Rightarrow> nat \<Rightarrow> textbox \<Rightarrow> textbox" where
  "handleKeyPressed p keyCode tb =
     (if readOnly tb then tb
      else if Some keyCode = BACKSPACE p then
        (if length (text_p tb) > 0 \<and> cursorPosition tb > 0 then
           (let t1 = tb\<lparr>text_p := substring (text_p tb) 0 (cursorPosition tb - 1) @
                                   substring_from (text_p tb) (cursorPosition tb)\<rparr>;
                t2 = t1\<lparr>cursorPosition := cursorPosition t1 - 1\<rparr>;
                t3 = this_emit ''change'' [JStr (text_p t2)] t2;
                t4 = this_emit ''keyPress'' [key_event ''Backspace'' keyCode] t3
            in redraw t4)
         else tb)
      else if Some keyCode = DELETE p then
        (if cursorPosition tb < int (length (text_p tb)) then
           (let t1 = tb\<lparr>text_p := substring (text_p tb) 0 (cursorPosition tb) @
                                   substring_from (text_p tb) (cursorPosition tb + 1)\<rparr>;
                t2 = this_emit ''change'' [JStr (text_p t1)] t1;
                t3 = this_emit ''keyPress'' [key_event ''Delete'' keyCode] t2
            in redraw t3)
         else tb)
      else if Some keyCode = LEFT_ARROW p then
        (if cursorPosition tb > 0
         then redraw (tb\<lparr>cursorPosition := cursorPosition tb - 1\<rparr>)
         else tb)
      else if Some keyCode = RIGHT_ARROW p then
        (if cursorPosition tb < int (length (text_p tb))
         then redraw (tb\<lparr>cursorPosition := cursorPosition tb + 1\<rparr>)
         else tb)
      else if Some keyCode = HOME p then
        redraw (tb\<lparr>cursorPosition := 0\<rparr>)
      else if Some keyCode = END p then
        redraw (tb\<lparr>cursorPosition := int (length (text_p tb))\<rparr>)
      else if Some keyCode = ENTER p \<and> \<not> multiline tb then
        blur (this_emit ''submit'' [JStr (text_p tb)] tb)
      else tb)"

definition handleKeyTyped :: "string \<Rightarrow> textbox \<Rightarrow> textbox" where
  "handleKeyTyped key tb =
     (if readOnly tb then tb
      else if length key = 1 \<and> (32::nat) \<le> of_char (key ! 0) then
        (if of_nat (length (text_p tb)) < maxLength tb then
           (let t1 = tb\<lparr>text_p := substring (text_p tb) 0 (cursorPosition tb) @ key @
                                   substring_from (text_p tb) (cursorPosition tb)\<rparr>;
                t2 = t1\<lparr>cursorPosition := cursorPosition t1 + 1\<rparr>;
                t3 = this_emit ''change'' [JStr (text_p t2)] t2;
                t4 = this_emit ''keyPress'' [key_event key (of_char (key ! 0))] t3
            in redraw t4)
         else tb)
      else tb)"

text \<open>
  The sketch's \<open>keyPressed\<close> and \<open>keyTyped\<close>: p5 calls them for every key, and they
  pass the key on only to a focused component.
\<close>

definition keyPressed :: "p5keys \<Rightarrow> nat \<Rightarrow> textbox \<Rightarrow> textbox" where
  "keyPressed p keyCode tb = (if state tb = Focused then handleKeyPressed p keyCode tb else tb)"

definition keyTyped :: "string \<Rightarrow> textbox \<Rightarrow> textbox" where
  "keyTyped key tb = (if state tb = Focused then handleKeyTyped key tb else tb)"

definition clear :: "textbox \<Rightarrow> textbox" where
  "clear tb =
     (let t1 = tb\<lparr>text_p := [], cursorPosition := 0\<rparr>
      in redraw (this_emit ''change'' [JStr (text_p t1)] t1))"

definition selectAll :: "textbox \<Rightarrow> textbox" where
  "selectAll tb =
     redraw (tb\<lparr>selectionStart := 0, selectionEnd := int (length (text_p tb))\<rparr>)"

definition getSelectedText :: "textbox \<Rightarrow> string" where
  "getSelectedText tb =
     (if selectionStart tb \<ge> 0 \<and> selectionEnd tb \<ge> 0
      then substring (text_p tb) (min (selectionStart tb) (selectionEnd tb))
             (max (selectionStart tb) (selectionEnd tb))
      else [])"

subsection \<open>Click-to-cursor mapping\<close>

text \<open>
  The loop of \<open>_handleMousePressed\<close>, entered at index \<open>i\<close> with the accumulated
  width \<open>textWidth\<close> and the current \<open>position\<close>; it returns the final \<open>position\<close>.
  \<open>tw\<close> is \<open>textWidth\<close> of the p5 instance, the measurement of a string in the
  instance's current font.
\<close>

function click_loop :: "(string \<Rightarrow> rat) \<Rightarrow> string \<Rightarrow> rat \<Rightarrow> nat \<Rightarrow> rat \<Rightarrow> nat \<Rightarrow> nat" where
  "click_loop tw s clickOffset i textWidth position =
     (if i \<le> length s then
        (let char = charAt s i;
             charWidth = tw char
         in if textWidth + (charWidth / 2) > clickOffset then i
            else click_loop tw s clickOffset (i + 1) (textWidth + charWidth) (i + 1))
      else position)"
  by pat_completeness auto
termination
  by (relation "measure (\<lambda>(tw, s, clickOffset, i, textWidth, position). Suc (length s) - i)") auto

declare click_loop.simps [simp del]

definition textbox_handleMousePressed :: "(string \<Rightarrow> rat) \<Rightarrow> rat \<Rightarrow> rat \<Rightarrow> textbox \<Rightarrow> textbox" where
  "textbox_handleMousePressed tw mx my tb =
     (let t1 = handleMousePressed mx my tb
      in if enabled t1 \<and> \<not> readOnly t1 then
           (let t2 = focus t1;
                mouseX = mx
            in if textAlign t2 = ''left'' then
                 (let clickOffset = mouseX - padding t2;
                      position = click_loop tw (text_p t2) clickOffset 0 0 0
                  in redraw (t2\<lparr>cursorPosition :=
                       max 0 (min (int position) (int (length (text_p t2))))\<rparr>))
               else t2)
         else t1)"

section \<open>P5Label\<close>

text \<open>
  The label's \<open>_textAlign\<close> and \<open>_padding\<close> are \<open>lbl_textAlign\<close> and
  \<open>lbl_padding\<close> here, the names without prefix being the text box's.
\<close>

record label = component +
  lbl_textAlign :: string
  verticalAlign :: string
  autoSize :: bool
  wordWrap :: bool
  lbl_padding :: rat
  fontStyle :: string
  underline :: bool
  strikethrough :: bool

record label_options = options +
  opt_lbl_textAlign :: "string option"
  opt_verticalAlign :: "string option"
  opt_autoSize :: "bool option"
  opt_wordWrap :: "bool option"
  opt_lbl_padding :: "rat option"
  opt_fontStyle :: "string option"
  opt_underline :: "bool option"
  opt_strikethrough :: "bool option"

definition label_super_options :: "'a options_scheme \<Rightarrow> 'a options_scheme" where
  "label_super_options options =
     options\<lparr>opt_width := spread 100 (opt_width options),
             opt_height := spread 20 (opt_height options),
             opt_text := spread ''Label'' (opt_text options),
             opt_backColor := spread ''transparent'' (opt_backColor options),
             opt_foreColor := spread ''#000000'' (opt_foreColor options),
             opt_borderColor := spread ''transparent'' (opt_borderColor options),
             opt_borderWidth := spread 0 (opt_borderWidth options),
             opt_fontSize := spread 14 (opt_fontSize options),
             opt_enabled := spread False (opt_enabled options)\<rparr>"

definition P5Label :: "string \<Rightarrow> label_options \<Rightarrow> label" where
  "P5Label now options =
     component.extend (init_component ''P5Label'' now (label_super_options options))
       (label.fields
          (str_or (opt_lbl_textAlign options) ''left'')
          (str_or (opt_verticalAlign options) ''top'')
          (defined_or (opt_autoSize options) False)
          (defined_or (opt_wordWrap options) False)
          (defined_or (opt_lbl_padding options) 0)
          (str_or (opt_fontStyle options) ''normal'')
          (bool_or (opt_underline options) False)
          (bool_or (opt_strikethrough options) False))"

definition no_label_options :: label_options where
  "no_label_options =
     options.extend no_options (label_options.fields None None None None None None None None)"

text \<open>
  \<open>_adjustSize\<close>. \<open>metrics family size s\<close> is \<open>textWidth(s)\<close> of the p5 instance
  after \<open>textFont(family)\<close> and \<open>textSize(size)\<close>.
\<close>

definition adjustSize :: "(string \<Rightarrow> rat \<Rightarrow> string \<Rightarrow> rat) \<Rightarrow> label \<Rightarrow> label" where
  "adjustSize metrics l =
     (if \<not> p5Instance l then l
      else
        (let textWidth = metrics (fontFamily l) (fontSize l) (text_p l);
             textHeight = fontSize l
         in resizeCanvas (l\<lparr>width := textWidth + (lbl_padding l * 2),
                              height := textHeight + (lbl_padding l * 2)\<rparr>)))"

definition label_setup :: "(string \<Rightarrow> rat \<Rightarrow> string \<Rightarrow> rat) \<Rightarrow> label \<Rightarrow> label" where
  "label_setup metrics l = (if autoSize l then adjustSize metrics l else l)"

definition set_lbl_textAlign :: "string \<Rightarrow> label \<Rightarrow> label" where
  "set_lbl_textAlign v l = redraw (l\<lparr>lbl_textAlign := v\<rparr>)"

definition set_verticalAlign :: "string \<Rightarrow> label \<Rightarrow> label" where
  "set_verticalAlign v l = redraw (l\<lparr>verticalAlign := v\<rparr>)"

definition set_autoSize :: "(string \<Rightarrow> rat \<Rightarrow> string \<Rightarrow> rat) \<Rightarrow> bool \<Rightarrow> label \<Rightarrow> label" where
  "set_autoSize metrics v l =
     (let l1 = l\<lparr>autoSize := v\<rparr> in if v then adjustSize metrics l1 else l1)"

definition set_wordWrap :: "bool \<Rightarrow> label \<Rightarrow> label" where
  "set_wordWrap v l = redraw (l\<lparr>wordWrap := v\<rparr>)"

definition set_fontStyle :: "string \<Rightarrow> label \<Rightarrow> label" where
  "set_fontStyle v l = redraw (l\<lparr>fontStyle := v\<rparr>)"

definition set_underline :: "bool \<Rightarrow> label \<Rightarrow> label" where
  "set_underline v l = redraw (l\<lparr>underline := v\<rparr>)"

definition set_strikethrough :: "bool \<Rightarrow> label \<Rightarrow> label" where
  "set_strikethrough v l = redraw (l\<lparr>strikethrough := v\<rparr>)"

text \<open>The label overrides the \<open>text\<close> setter.\<close>

definition label_set_text :: "(string \<Rightarrow> rat \<Rightarrow> string \<Rightarrow> rat) \<Rightarrow> string \<Rightarrow> label \<Rightarrow> label" where
  "label_set_text metrics v l =
     (let l1 = this_emit ''textChanged'' [JStr v] (l\<lparr>text_p := v\<rparr>);
          l2 = (if autoSize l1 then adjustSize metrics l1 else l1)
      in redraw l2)"

section \<open>Serialization\<close>

definition toJSON :: "'a component_scheme \<Rightarrow> (string \<times> jsval) list" where
  "toJSON c =
     [(''type'', JStr (className c)),
      (''name'', JStr (name c)),
      (''text'', JStr (text_p c)),
      (''left'', JNum (left c)),
      (''top'', JNum (top_p c)),
      (''width'', JNum (width c)),
      (''height'', JNum (height c)),
      (''enabled'', JBool (enabled c)),
      (''visible'', JBool (visible c)),
      (''backColor'', JStr (backColor c)),
      (''foreColor'', JStr (foreColor c)),
      (''fontSize'', JNum (fontSize c)),
      (''fontFamily'', JStr (fontFamily c)),
      (''borderColor'', JStr (borderColor c)),
      (''borderWidth'', JNum (borderWidth c)),
      (''tabIndex'', JNum (tabIndex c))]"

definition button_toJSON :: "button \<Rightarrow> (string \<times> jsval) list" where
  "button_toJSON b =
     toJSON b @
     [(''hoverColor'', JStr (hoverColor b)),
      (''activeColor'', JStr (activeColor b)),
      (''disabledColor'', JStr (disabledColor b)),
      (''disabledTextColor'', JStr (disabledTextColor b)),
      (''cornerRadius'', JNum (cornerRadius b))]"

definition textbox_toJSON :: "textbox \<Rightarrow> (string \<times> jsval) list" where
  "textbox_toJSON tb =
     toJSON tb @
     [(''placeholder'', JStr (placeholder tb)),
      (''maxLength'', JNum (maxLength tb)),
      (''readOnly'', JBool (readOnly tb)),
      (''passwordChar'', (case passwordChar tb of None \<Rightarrow> JNull | Some s \<Rightarrow> JStr s)),
      (''multiline'', JBool (multiline tb)),
      (''textAlign'', JStr (textAlign tb))]"

definition label_toJSON :: "label \<Rightarrow> (string \<times> jsval) list" where
  "label_toJSON l =
     toJSON l @
     [(''textAlign'', JStr (lbl_textAlign l)),
      (''verticalAlign'', JStr (verticalAlign l)),
      (''autoSize'', JBool (autoSize l)),
      (''wordWrap'', JBool (wordWrap l)),
      (''padding'', JNum (lbl_padding l)),
      (''fontStyle'', JStr (fontStyle l)),
      (''underline'', JBool (underline l)),
      (''strikethrough'', JBool (strikethrough l))]"

text \<open>
  \<open>this[key] = json[key]\<close> on a key whose field \<open>_key\<close> the object owns. A key with a
  setter runs the setter. \<open>state\<close> has a getter only, and the assignment, made in the
  strict code of a class body, throws a TypeError. A key with no accessor gets a plain
  property of that name and the field \<open>_key\<close> stays as it is. The fields being typed
  here, a value of another type than the field's is outside the model (\<open>Untyped\<close>).
\<close>

datatype 'w assigned = Assigned 'w | Throws_TypeError | Untyped

definition with_str :: "jsval \<Rightarrow> (string \<Rightarrow> 'w) \<Rightarrow> 'w assigned" where
  "with_str v f = (case v of JStr s \<Rightarrow> Assigned (f s) | _ \<Rightarrow> Untyped)"

definition with_num :: "jsval \<Rightarrow> (rat \<Rightarrow> 'w) \<Rightarrow> 'w assigned" where
  "with_num v f = (case v of JNum n \<Rightarrow> Assigned (f n) | _ \<Rightarrow> Untyped)"

definition with_bool :: "jsval \<Rightarrow> (bool \<Rightarrow> 'w) \<Rightarrow> 'w assigned" where
  "with_bool v f = (case v of JBool b \<Rightarrow> Assigned (f b) | _ \<Rightarrow> Untyped)"

definition with_str_or_null :: "jsval \<Rightarrow> (string option \<Rightarrow> 'w) \<Rightarrow> 'w assigned" where
  "with_str_or_null v f =
     (case v of JStr s \<Rightarrow> Assigned (f (Some s)) | JNull \<Rightarrow> Assigned (f None) | _ \<Rightarrow> Untyped)"

definition component_assign :: "string \<Rightarrow> jsval \<Rightarrow> 'a component_scheme \<Rightarrow> 'a component_scheme assigned" where
  "component_assign key v c =
     (if key = ''name'' then with_str v (\<lambda>s. set_name s c)
      else if key = ''text'' then with_str v (\<lambda>s. set_text s c)
      else if key = ''left'' then with_num v (\<lambda>n. set_left n c)
      else if key = ''top'' then with_num v (\<lambda>n. set_top n c)
      else if key = ''width'' then with_num v (\<lambda>n. set_width n c)
      else if key = ''height'' then with_num v (\<lambda>n. set_height n c)
      else if key = ''enabled'' then with_bool v (\<lambda>b. set_enabled b c)
      else if key = ''visible'' then with_bool v (\<lambda>b. set_visible b c)
      else if key = ''backColor'' then with_str v (\<lambda>s. set_backColor s c)
      else if key = ''foreColor'' then with_str v (\<lambda>s. set_foreColor s c)
      else if key = ''fontSize'' then with_num v (\<lambda>n. set_fontSize n c)
      else if key = ''fontFamily'' then with_str v (\<lambda>s. set_fontFamily s c)
      else if key = ''borderColor'' then with_str v (\<lambda>s. set_borderColor s c)
      else if key = ''borderWidth'' then with_num v (\<lambda>n. set_borderWidth n c)
      else if key = ''state'' then Throws_TypeError
      else Assigned c)"

definition button_assign :: "string \<Rightarrow> jsval \<Rightarrow> button \<Rightarrow> button assigned" where
  "button_assign key v b =
     (if key = ''hoverColor'' then with_str v (\<lambda>s. set_hoverColor s b)
      else if key = ''activeColor'' then with_str v (\<lambda>s. set_activeColor s b)
      else if key = ''disabledColor'' then with_str v (\<lambda>s. set_disabledColor s b)
      else if key = ''cornerRadius'' then with_num v (\<lambda>n. set_cornerRadius n b)
      else component_assign key v b)"

definition textbox_assign :: "string \<Rightarrow> jsval \<Rightarrow> textbox \<Rightarrow> textbox assigned" where
  "textbox_assign key v tb =
     (if key = ''placeholder'' then with_str v (\<lambda>s. set_placeholder s tb)
      else if key = ''maxLength'' then with_num v (\<lambda>n. set_maxLength n tb)
      else if key = ''readOnly'' then with_bool v (\<lambda>b. set_readOnly b tb)
      else if key = ''passwordChar'' then with_str_or_null v (\<lambda>s. set_passwordChar s tb)
      else if key = ''multiline'' then with_bool v (\<lambda>b. set_multiline b tb)
      else if key = ''textAlign'' then with_str v (\<lambda>s. set_textAlign s tb)
      else component_assign key v tb)"

definition label_assign :: "(string \<Rightarrow> rat \<Rightarrow> string \<Rightarrow> rat) \<Rightarrow> string \<Rightarrow> jsval \<Rightarrow> label \<Rightarrow> label assigned" where
  "label_assign metrics key v l =
     (if key = ''text'' then with_str v (\<lambda>s. label_set_text metrics s l)
      else if key = ''textAlign'' then with_str v (\<lambda>s. set_lbl_textAlign s l)
      else if key = ''verticalAlign'' then with_str v (\<lambda>s. set_verticalAlign s l)
      else if key = ''autoSize'' then with_bool v (\<lambda>b. set_autoSize metrics b l)
      else if key = ''wordWrap'' then with_bool v (\<lambda>b. set_wordWrap b l)
      else if key = ''fontStyle'' then with_str v (\<lambda>s. set_fontStyle s l)
      else if key = ''underline'' then with_bool v (\<lambda>b. set_underline b l)
      else if key = ''strikethrough'' then with_bool v (\<lambda>b. set_strikethrough b l)
      else component_assign key v l)"

text \<open>The keys \<open>k\<close> whose field \<open>_k\<close> an instance of each class owns.\<close>

definition component_own :: "string list" where
  "component_own =
     [''name'', ''text'', ''left'', ''top'', ''width'', ''height'', ''enabled'', ''visible'',
      ''backColor'', ''foreColor'', ''fontSize'', ''fontFamily'', ''borderColor'',
      ''borderWidth'', ''tabIndex'', ''state'', ''parent'', ''p5Instance'', ''canvas'',
      ''containerElement'', ''mouseInside'', ''mousePressed'']"

definition button_own :: "string list" where
  "button_own =
     component_own @
     [''hoverColor'', ''activeColor'', ''disabledColor'', ''disabledTextColor'', ''cornerRadius'']"

definition textbox_own :: "string list" where
  "textbox_own =
     component_own @
     [''placeholder'', ''placeholderColor'', ''maxLength'', ''readOnly'', ''passwordChar'',
      ''multiline'', ''textAlign'', ''cursorPosition'', ''cursorVisible'',
      ''cursorBlinkInterval'', ''selectionStart'', ''selectionEnd'', ''focusBorderColor'',
      ''padding'']"

definition label_own :: "string list" where
  "label_own =
     component_own @
     [''textAlign'', ''verticalAlign'', ''autoSize'', ''wordWrap'', ''padding'', ''fontStyle'',
      ''underline'', ''strikethrough'']"

text \<open>
  \<open>fromJSON\<close>: the keys of the record in their order; \<open>own\<close> and \<open>assign\<close> are
  those of the object's class. A throw ends the iteration.
\<close>

fun fromJSON_with :: "string list \<Rightarrow> (string \<Rightarrow> jsval \<Rightarrow> 'w \<Rightarrow> 'w assigned) \<Rightarrow> (string \<times> jsval) list \<Rightarrow> 'w \<Rightarrow> 'w assigned" where
  "fromJSON_with own assign [] w = Assigned w"
| "fromJSON_with own assign ((key, v) # json) w =
     (if key \<noteq> ''type'' \<and> key \<in> set own then
        (case assign key v w of
           Assigned w' \<Rightarrow> fromJSON_with own assign json w'
         | Throws_TypeError \<Rightarrow> Throws_TypeError
         | Untyped \<Rightarrow> Untyped)
      else fromJSON_with own assign json w)"

definition fromJSON :: "(string \<times> jsval) list \<Rightarrow> component \<Rightarrow> component assigned" where
  "fromJSON json c = fromJSON_with component_own component_assign json c"

definition button_fromJSON :: "(string \<times> jsval) list \<Rightarrow> button \<Rightarrow> button assigned" where
  "button_fromJSON json b = fromJSON_with button_own button_assign json b"

definition textbox_fromJSON :: "(string \<times> jsval) list \<Rightarrow> textbox \<Rightarrow> textbox assigned" where
  "textbox_fromJSON json tb = fromJSON_with textbox_own textbox_assign json tb"

definition label_fromJSON :: "(string \<Rightarrow> rat \<Rightarrow> string \<Rightarrow> rat) \<Rightarrow> (string \<times> jsval) list \<Rightarrow> label \<Rightarrow> label assigned" where
  "label_fromJSON metrics json l = fromJSON_with label_own (label_assign metrics) json l"

section \<open>Notions used in the statements\<close>

text \<open>The invariant of the component's state: disabled exactly when not enabled.\<close>

definition state_inv :: "'a component_scheme \<Rightarrow> bool" where
  "state_inv c = ((state c = Disabled) = (\<not> enabled c))"

text \<open>The invariant of the text box: the cursor is a position of the text.\<close>

definition cursor_ok :: "textbox \<Rightarrow> bool" where
  "cursor_ok tb = (0 \<le> cursorPosition tb \<and> cursorPosition tb \<le> int (length (text_p tb)))"

text \<open>
  A key reaching the text box's handlers: \<open>Pressed keyCode\<close> is a call of
  \<open>handleKeyPressed\<close>, \<open>Typed key\<close> a call of \<open>handleKeyTyped\<close>. An insertion is
  \<open>Typed [c]\<close> with a printable \<open>c\<close>, a backspace is \<open>Pressed k\<close> with
  \<open>BACKSPACE p = Some k\<close>, a delete is \<open>Pressed k\<close> with \<open>DELETE p = Some k\<close>
  (and no earlier branch taking \<open>k\<close>).
\<close>

datatype key_signal = Pressed nat | Typed string

definition deliver :: "p5keys \<Rightarrow> key_signal \<Rightarrow> textbox \<Rightarrow> textbox" where
  "deliver p sig tb =
     (case sig of
        Pressed keyCode \<Rightarrow> handleKeyPressed p keyCode tb
      | Typed key \<Rightarrow> handleKeyTyped key tb)"

definition deliver_all :: "p5keys \<Rightarrow> key_signal list \<Rightarrow> textbox \<Rightarrow> textbox" where
  "deliver_all p sigs tb = fold (deliver p) sigs tb"

text \<open>
  The click-to-cursor mapping in the words of the specification: walking the characters
  from the left and accumulating glyph widths, the first index at which the accumulated
  width plus half the width of the next glyph exceeds the click offset, and the length
  of the text when there is none. The width of a glyph is \<open>tw\<close> of the one-character
  string.
\<close>

definition accumulated_width :: "(string \<Rightarrow> rat) \<Rightarrow> string \<Rightarrow> nat \<Rightarrow> rat" where
  "accumulated_width tw s i = sum_list (map (\<lambda>c. tw [c]) (take i s))"

definition half_glyph_exceeds :: "(string \<Rightarrow> rat) \<Rightarrow> string \<Rightarrow> rat \<Rightarrow> nat \<Rightarrow> bool" where
  "half_glyph_exceeds tw s offset i = (accumulated_width tw s i + tw [s ! i] / 2 > offset)"

definition spec_click_index :: "(string \<Rightarrow> rat) \<Rightarrow> string \<Rightarrow> rat \<Rightarrow> nat" where
  "spec_click_index tw s offset =
     (case find (half_glyph_exceeds tw s offset) [0..<length s] of
        Some i \<Rightarrow> i
      | None \<Rightarrow> length s)"


definition fixed_metrics :: "string \<Rightarrow> rat \<Rightarrow> string \<Rightarrow> rat" where
  "fixed_metrics family fsize s = 7 * of_nat (length s)"

definition sample_keys :: p5keys where
  "sample_keys =
     \<lparr>BACKSPACE = Some 8, DELETE = Some 46, LEFT_ARROW = Some 37, RIGHT_ARROW = Some 39,
      HOME = None, END = None, ENTER = Some 13\<rparr>"



text \<open>
  Sample widgets: the options record \<open>{}\<close> of a button, and the label
  \<open>l = new P5Label({autoSize: true}); l.width = 500\<close>.
\<close>

definition no_button_options :: button_options where
  "no_button_options =
     options.extend no_options (button_options.fields None None None None None)"

definition sized_label :: label where
  "sized_label = set_width 500 (P5Label ''0'' (no_label_options\<lparr>opt_autoSize := Some True\<rparr>))"

section \<open>Auxiliary facts\<close>

lemmas option_defs = str_or_def num_or_def bool_or_def defined_or_def spread_def

lemmas constructor_defs =
  P5Component_def init_component_def no_options_def component.extend_def options.extend_def
  P5TextBox_def textbox_super_options_def textbox.fields_def no_textbox_options_def
  textbox_options.fields_def

lemmas effect_defs = this_emit_def redraw_def updatePosition_def resizeCanvas_def

lemmas pointer_defs =
  handleMousePressed_def handleMouseReleased_def handleMouseOver_def handleMouseOut_def
  focus_def blur_def

subsection \<open>Substrings\<close>

lemma substring_0: "substring s 0 c = take (nat c) s"
  by (auto simp: substring_def Let_def min_def max_def)

lemma substring_from_drop: "substring_from s c = drop (nat c) s"
  by (auto simp: substring_from_def substring_def Let_def min_def max_def)

lemma length_backspace:
  "0 < c \<Longrightarrow> c \<le> int (length t) \<Longrightarrow>
   int (length (take (nat (c - 1)) t @ drop (nat c) t)) = int (length t) - 1"
  by (simp add: min_def)

lemma length_delete:
  "0 \<le> c \<Longrightarrow> c < int (length t) \<Longrightarrow>
   int (length (take (nat c) t @ drop (nat (c + 1)) t)) = int (length t) - 1"
  by (simp add: min_def)

lemma length_insert:
  "int (length (take (nat c) t @ key @ drop (nat c) t)) = int (length t) + int (length key)"
  by (simp add: min_def)

subsection \<open>The state invariant is kept by every method\<close>

lemma state_inv_effects [simp]: "state_inv (c\<lparr>effects := e\<rparr>) = state_inv c"
  by (simp add: state_inv_def)

lemma state_inv_this_emit [simp]: "state_inv (this_emit event args c) = state_inv c"
  by (simp add: this_emit_def)

lemma state_inv_redraw [simp]: "state_inv (redraw c) = state_inv c"
  by (simp add: redraw_def)

lemma state_inv_set_enabled: "state_inv (set_enabled v c)"
  by (simp add: set_enabled_def) (simp add: state_inv_def)

lemma state_inv_handleMousePressed: "state_inv c \<Longrightarrow> state_inv (handleMousePressed mx my c)"
  by (simp add: handleMousePressed_def) (auto simp: state_inv_def)

lemma state_inv_handleMouseReleased: "state_inv c \<Longrightarrow> state_inv (handleMouseReleased mx my c)"
  by (simp add: handleMouseReleased_def Let_def) (auto simp: state_inv_def)

lemma state_inv_handleMouseOver: "state_inv c \<Longrightarrow> state_inv (handleMouseOver c)"
  by (simp add: handleMouseOver_def Let_def) (auto simp: state_inv_def)

lemma state_inv_handleMouseOut: "state_inv c \<Longrightarrow> state_inv (handleMouseOut c)"
  by (simp add: handleMouseOut_def Let_def) (auto simp: state_inv_def)

lemma state_inv_focus: "state_inv c \<Longrightarrow> state_inv (focus c)"
  by (simp add: focus_def) (auto simp: state_inv_def)

lemma state_inv_blur: "state_inv c \<Longrightarrow> state_inv (blur c)"
  by (simp add: blur_def) (auto simp: state_inv_def)

lemma state_inv_set_text: "state_inv c \<Longrightarrow> state_inv (set_text v c)"
  by (simp add: set_text_def) (simp add: state_inv_def)

lemma state_inv_constructor:
  "opt_enabled options \<noteq> Some False \<Longrightarrow> state_inv (init_component cls now options)"
  by (cases "opt_enabled options") (auto simp: state_inv_def init_component_def defined_or_def)

subsection \<open>The cursor invariant is kept by the editing methods\<close>

lemma cursor_ok_effects [simp]: "cursor_ok (tb\<lparr>effects := e\<rparr>) = cursor_ok tb"
  by (simp add: cursor_ok_def)

lemma cursor_ok_state [simp]: "cursor_ok (tb\<lparr>state := s\<rparr>) = cursor_ok tb"
  by (simp add: cursor_ok_def)

lemma cursor_ok_mousePressed [simp]: "cursor_ok (tb\<lparr>mousePressed := b\<rparr>) = cursor_ok tb"
  by (simp add: cursor_ok_def)

lemma cursor_ok_redraw [simp]: "cursor_ok (redraw tb) = cursor_ok tb"
  by (simp add: redraw_def)

lemma cursor_ok_this_emit [simp]: "cursor_ok (this_emit event args tb) = cursor_ok tb"
  by (simp add: this_emit_def)

lemma cursor_ok_blur [simp]: "cursor_ok (blur tb) = cursor_ok tb"
  by (simp add: blur_def)

lemma cursor_ok_focus [simp]: "cursor_ok (focus tb) = cursor_ok tb"
  by (simp add: focus_def)

lemma cursor_ok_backspace:
  "cursor_ok tb \<Longrightarrow> 0 < cursorPosition tb \<Longrightarrow>
   cursor_ok (tb\<lparr>text_p := take (nat (cursorPosition tb - 1)) (text_p tb) @
                            drop (nat (cursorPosition tb)) (text_p tb),
                 cursorPosition := cursorPosition tb - 1\<rparr>)"
  unfolding cursor_ok_def
  by (simp add: length_backspace del: length_append length_take length_drop)

lemma cursor_ok_delete:
  "cursor_ok tb \<Longrightarrow> cursorPosition tb < int (length (text_p tb)) \<Longrightarrow>
   cursor_ok (tb\<lparr>text_p := take (nat (cursorPosition tb)) (text_p tb) @
                            drop (nat (cursorPosition tb + 1)) (text_p tb)\<rparr>)"
  unfolding cursor_ok_def
  by (simp add: length_delete del: length_append length_take length_drop)

lemma cursor_ok_insert:
  "cursor_ok tb \<Longrightarrow> length key = 1 \<Longrightarrow>
   cursor_ok (tb\<lparr>text_p := take (nat (cursorPosition tb)) (text_p tb) @ key @
                            drop (nat (cursorPosition tb)) (text_p tb),
                 cursorPosition := cursorPosition tb + 1\<rparr>)"
  unfolding cursor_ok_def
  by (simp add: length_insert del: length_append length_take length_drop)

lemma cursor_ok_move:
  "cursor_ok tb \<Longrightarrow> 0 \<le> c \<Longrightarrow> c \<le> int (length (text_p tb)) \<Longrightarrow>
   cursor_ok (tb\<lparr>cursorPosition := c\<rparr>)"
  by (simp add: cursor_ok_def)

lemma cursor_ok_if:
  "(c \<Longrightarrow> cursor_ok a) \<Longrightarrow> (\<not> c \<Longrightarrow> cursor_ok b) \<Longrightarrow> cursor_ok (if c then a else b)"
  by simp

lemma cursor_ok_handleKeyPressed:
  assumes ok: "cursor_ok tb"
  shows "cursor_ok (handleKeyPressed p keyCode tb)"
proof -
  from ok have range: "0 \<le> cursorPosition tb" "cursorPosition tb \<le> int (length (text_p tb))"
    by (simp_all add: cursor_ok_def)
  show ?thesis
    unfolding handleKeyPressed_def Let_def substring_0 substring_from_drop
    by (intro cursor_ok_if)
       (insert ok range, simp_all add: cursor_ok_backspace cursor_ok_delete cursor_ok_move)
qed

lemma cursor_ok_handleKeyTyped:
  assumes ok: "cursor_ok tb"
  shows "cursor_ok (handleKeyTyped key tb)"
  unfolding handleKeyTyped_def Let_def substring_0 substring_from_drop
  by (intro cursor_ok_if) (simp_all add: ok cursor_ok_insert)

lemma cursor_ok_deliver: "cursor_ok tb \<Longrightarrow> cursor_ok (deliver p sig tb)"
  by (cases sig) (simp_all add: deliver_def cursor_ok_handleKeyPressed cursor_ok_handleKeyTyped)

lemma cursor_ok_clear: "cursor_ok (clear tb)"
  by (simp add: clear_def Let_def) (simp add: cursor_ok_def)

lemma cursor_ok_constructor: "cursor_ok (P5TextBox now options)"
  by (simp add: P5TextBox_def Let_def component.extend_def textbox.fields_def cursor_ok_def)

lemma cursor_ok_textbox_handleMousePressed:
  "cursor_ok tb \<Longrightarrow> cursor_ok (textbox_handleMousePressed tw mx my tb)"
  by (simp add: textbox_handleMousePressed_def handleMousePressed_def Let_def)
     (simp add: cursor_ok_def focus_def redraw_def this_emit_def)

text \<open>
  Under the cursor invariant, a text box whose text is not empty and whose cursor is
  not at 0 has a character immediately before the cursor.
\<close>

lemma char_before_cursor:
  assumes "cursor_ok tb" and "cursorPosition tb \<noteq> 0"
  shows "\<exists>a x b. text_p tb = a @ x # b \<and> cursorPosition tb = int (length a) + 1"
proof -
  let ?i = "nat (cursorPosition tb) - 1"
  from assms have i: "?i < length (text_p tb)" and c: "cursorPosition tb = int ?i + 1"
    by (auto simp: cursor_ok_def)
  have "text_p tb = take ?i (text_p tb) @ (text_p tb ! ?i) # drop (Suc ?i) (text_p tb)"
    using i by (simp add: id_take_nth_drop [symmetric])
  moreover have "cursorPosition tb = int (length (take ?i (text_p tb))) + 1"
    using i c by (simp add: min_def)
  ultimately show ?thesis by blast
qed

subsection \<open>The click loop\<close>



text \<open>
  The index of the specification is the first one at which the half-glyph test holds,
  and the length of the text when it holds nowhere.
\<close>

lemma spec_click_index_first:
  "spec_click_index tw s offs \<le> length s \<and>
   (\<forall>j < spec_click_index tw s offs. \<not> half_glyph_exceeds tw s offs j) \<and>
   (spec_click_index tw s offs < length s \<longrightarrow>
      half_glyph_exceeds tw s offs (spec_click_index tw s offs))"
proof (cases "find (half_glyph_exceeds tw s offs) [0..<length s]")
  case None
  then have "\<forall>j < length s. \<not> half_glyph_exceeds tw s offs j"
    by (auto simp: find_None_iff)
  with None show ?thesis
    by (simp add: spec_click_index_def)
next
  case (Some i)
  then obtain k where "k < length [0..<length s]"
    and "half_glyph_exceeds tw s offs ([0..<length s] ! k)"
    and "i = [0..<length s] ! k"
    and "\<forall>j<k. \<not> half_glyph_exceeds tw s offs ([0..<length s] ! j)"
    by (auto simp: find_Some_iff)
  then have "i < length s" and "half_glyph_exceeds tw s offs i"
    and "\<forall>j<i. \<not> half_glyph_exceeds tw s offs j"
    by auto
  with Some show ?thesis
    by (simp add: spec_click_index_def)
qed

subsection \<open>Listeners\<close>




section \<open>The state of a component and its enabled flag\<close>

text \<open>
  C1. The claim is that a component is in state \<open>disabled\<close> exactly when it is not
  enabled, also right after construction. Every method keeps this (the lemmas
  \<open>state_inv_...\<close> above, the setter of \<open>enabled\<close> establishing it), and a component
  constructed without \<open>enabled: false\<close> starts with it. The constructor however sets the
  state to \<open>normal\<close> whatever \<open>enabled\<close> is: \<open>new P5Component({enabled: false})\<close> is
  not enabled and in state \<open>normal\<close>, and stays so under the pointer handlers,
  \<open>focus\<close> and \<open>blur\<close>.
\<close>

theorem constructor_disabled_state_normal:
  "\<not> enabled (P5Component ''0'' (no_options\<lparr>opt_enabled := Some False\<rparr>)) \<and>
   state (P5Component ''0'' (no_options\<lparr>opt_enabled := Some False\<rparr>)) = Normal \<and>
   \<not> state_inv (P5Component ''0'' (no_options\<lparr>opt_enabled := Some False\<rparr>)) \<and>
   state (focus (handleMouseOver (P5Component ''0'' (no_options\<lparr>opt_enabled := Some False\<rparr>)))) = Normal"
  by (simp add: option_defs constructor_defs state_inv_def pointer_defs)

section \<open>The cursor of a text box\<close>

text \<open>
  C2. The claim is that the cursor stays within the text after every operation that
  changes the text, the \<open>text\<close> setter included. \<open>clear\<close>, the key handlers and the
  pointer handler keep the cursor within the text (the lemmas \<open>cursor_ok_...\<close> above).
  The \<open>text\<close> setter, inherited from P5Component, leaves the cursor where it was: after
  \<open>tb = new P5TextBox({text: 'abc'}); tb.text = ''\<close> the cursor is 3 and the text is empty.
\<close>

theorem text_setter_leaves_cursor:
  "cursorPosition (set_text [] (P5TextBox ''0'' (no_textbox_options\<lparr>opt_text := Some ''abc''\<rparr>))) = 3 \<and>
   text_p (set_text [] (P5TextBox ''0'' (no_textbox_options\<lparr>opt_text := Some ''abc''\<rparr>))) = [] \<and>
   \<not> cursor_ok (set_text [] (P5TextBox ''0'' (no_textbox_options\<lparr>opt_text := Some ''abc''\<rparr>)))"
  by (simp add: option_defs constructor_defs set_text_def effect_defs cursor_ok_def)

text \<open>
  C3. Typing a printable character \<open>c\<close> (a key of length 1 with code at least 32): when
  the text box is read-only or its text has reached \<open>maxLength\<close>, nothing changes;
  otherwise \<open>c\<close> is inserted at the cursor, the cursor moves one to the right, and the
  effects are a \<open>change\<close> event with the new text, then a \<open>keyPress\<close> event, then the
  redraw. In a focused text box constructed with \<open>maxLength: 3\<close>, typing a, b, c gives
  the text abc and the cursor 3, and typing d then changes nothing.
\<close>

theorem insertion_at_cursor:
  "(32::nat) \<le> of_char c \<Longrightarrow>
   handleKeyTyped [c] tb =
     (if readOnly tb \<or> maxLength tb \<le> of_nat (length (text_p tb)) then tb
      else tb\<lparr>text_p := take (nat (cursorPosition tb)) (text_p tb) @ [c] @
                            drop (nat (cursorPosition tb)) (text_p tb),
               cursorPosition := cursorPosition tb + 1,
               effects := effects tb @
                 [Emit ''change'' [JStr (take (nat (cursorPosition tb)) (text_p tb) @ [c] @
                                         drop (nat (cursorPosition tb)) (text_p tb))],
                  Emit ''keyPress'' [key_event [c] (of_char c)]] @
                 (if p5Instance tb then [Redraw] else [])\<rparr>) \<and>
   text_p (keyTyped ''c'' (keyTyped ''b'' (keyTyped ''a''
     (focus (P5TextBox now (no_textbox_options\<lparr>opt_maxLength := Some 3\<rparr>)))))) = ''abc'' \<and>
   cursorPosition (keyTyped ''c'' (keyTyped ''b'' (keyTyped ''a''
     (focus (P5TextBox now (no_textbox_options\<lparr>opt_maxLength := Some 3\<rparr>)))))) = 3 \<and>
   keyTyped ''d'' (keyTyped ''c'' (keyTyped ''b'' (keyTyped ''a''
     (focus (P5TextBox now (no_textbox_options\<lparr>opt_maxLength := Some 3\<rparr>)))))) =
   keyTyped ''c'' (keyTyped ''b'' (keyTyped ''a''
     (focus (P5TextBox now (no_textbox_options\<lparr>opt_maxLength := Some 3\<rparr>)))))"
proof (intro conjI)
  assume "(32::nat) \<le> of_char c"
  then show "handleKeyTyped [c] tb =
     (if readOnly tb \<or> maxLength tb \<le> of_nat (length (text_p tb)) then tb
      else tb\<lparr>text_p := take (nat (cursorPosition tb)) (text_p tb) @ [c] @
                            drop (nat (cursorPosition tb)) (text_p tb),
               cursorPosition := cursorPosition tb + 1,
               effects := effects tb @
                 [Emit ''change'' [JStr (take (nat (cursorPosition tb)) (text_p tb) @ [c] @
                                         drop (nat (cursorPosition tb)) (text_p tb))],
                  Emit ''keyPress'' [key_event [c] (of_char c)]] @
                 (if p5Instance tb then [Redraw] else [])\<rparr>)"
    by (simp add: handleKeyTyped_def Let_def effect_defs substring_0 substring_from_drop not_less)
qed (simp_all add: option_defs constructor_defs keyTyped_def focus_def handleKeyTyped_def Let_def
       effect_defs substring_0 substring_from_drop)

theorem insertion_at_cursor_witness:
  "(32::nat) \<le> of_char CHR ''b'' \<and>
   text_p (handleKeyTyped ''b''
     (P5TextBox ''0'' (no_textbox_options\<lparr>opt_text := Some ''ac''\<rparr>)\<lparr>cursorPosition := 1\<rparr>)) = ''abc'' \<and>
   cursorPosition (handleKeyTyped ''b''
     (P5TextBox ''0'' (no_textbox_options\<lparr>opt_text := Some ''ac''\<rparr>)\<lparr>cursorPosition := 1\<rparr>)) = 2 \<and>
   effects (handleKeyTyped ''b''
     (P5TextBox ''0'' (no_textbox_options\<lparr>opt_text := Some ''ac''\<rparr>)\<lparr>cursorPosition := 1\<rparr>)) =
     [Emit ''change'' [JStr ''abc''], Emit ''keyPress'' [key_event ''b'' 98], Redraw]"
proof -
  have printable: "(32::nat) \<le> of_char CHR ''b''" by simp
  show ?thesis
    using insertion_at_cursor [OF printable,
        of "P5TextBox ''0'' (no_textbox_options\<lparr>opt_text := Some ''ac''\<rparr>)\<lparr>cursorPosition := 1\<rparr>" "''0''"]
    by (simp add: option_defs constructor_defs)
qed



text \<open>
  C9. From a text box whose cursor is within its text, after every prefix of every
  finite sequence of keys delivered to the handlers (insertions, backspaces and deletes
  among them) the cursor is within the text.
\<close>

theorem cursor_within_text_after_keys:
  assumes start: "cursor_ok tb" and prefix: "n \<le> length sigs"
  shows "cursor_ok (deliver_all p (take n sigs) tb)"
proof -
  have run: "cursor_ok (fold (deliver p) ks t)" if "cursor_ok t" for ks t
    using that
  proof (induction ks arbitrary: t)
    case Nil
    then show ?case by simp
  next
    case (Cons k ks)
    from Cons.prems have "cursor_ok (deliver p k t)"
      by (rule cursor_ok_deliver)
    then have "cursor_ok (fold (deliver p) ks (deliver p k t))"
      by (rule Cons.IH)
    then show ?case by simp
  qed
  from run [OF start] show ?thesis
    by (simp add: deliver_all_def)
qed

theorem cursor_within_text_after_keys_witness:
  "cursor_ok (P5TextBox ''0'' (no_textbox_options\<lparr>opt_text := Some ''ab''\<rparr>)) \<and>
   (2::nat) \<le> length [Pressed 8, Typed ''x'', Pressed 46] \<and>
   cursor_ok (deliver_all sample_keys (take 2 [Pressed 8, Typed ''x'', Pressed 46])
     (P5TextBox ''0'' (no_textbox_options\<lparr>opt_text := Some ''ab''\<rparr>))) \<and>
   text_p (deliver_all sample_keys (take 2 [Pressed 8, Typed ''x'', Pressed 46])
     (P5TextBox ''0'' (no_textbox_options\<lparr>opt_text := Some ''ab''\<rparr>))) = ''ax''"
proof -
  have start: "cursor_ok (P5TextBox ''0'' (no_textbox_options\<lparr>opt_text := Some ''ab''\<rparr>))"
    by (rule cursor_ok_constructor)
  have len: "(2::nat) \<le> length [Pressed 8, Typed ''x'', Pressed 46]" by simp
  have res: "text_p (deliver_all sample_keys (take 2 [Pressed 8, Typed ''x'', Pressed 46])
     (P5TextBox ''0'' (no_textbox_options\<lparr>opt_text := Some ''ab''\<rparr>))) = ''ax''"
    by (simp add: deliver_all_def deliver_def sample_keys_def handleKeyPressed_def
        handleKeyTyped_def Let_def effect_defs substring_0 substring_from_drop
        option_defs constructor_defs numeral_2_eq_2)
  show ?thesis
    using start len res cursor_within_text_after_keys [OF start len, where p = sample_keys]
    by simp
qed

section \<open>Clicks\<close>




section \<open>Click-to-cursor mapping\<close>



section \<open>Constructor options\<close>

text \<open>
  C10. An option read with \<open>options.k || d\<close> and given as 0 gives the same component as
  the option left out: the default replaces the 0. So \<open>maxLength: 0\<close> gives a text box
  with \<open>maxLength\<close> 255, \<open>borderWidth: 0\<close> a component with \<open>borderWidth\<close> 1,
  \<open>fontSize: 0\<close> one with \<open>fontSize\<close> 14. \<open>enabled: false\<close> and \<open>visible: false\<close> are
  honoured.
\<close>

theorem zero_option_takes_default:
  "maxLength (P5TextBox now (toptions\<lparr>opt_maxLength := Some 0\<rparr>)) = 255 \<and>
   borderWidth (P5Component now (options\<lparr>opt_borderWidth := Some 0\<rparr>)) = 1 \<and>
   fontSize (P5Component now (options\<lparr>opt_fontSize := Some 0\<rparr>)) = 14 \<and>
   enabled (P5Component now (options\<lparr>opt_enabled := Some False\<rparr>)) = False \<and>
   visible (P5Component now (options\<lparr>opt_visible := Some False\<rparr>)) = False \<and>
   P5TextBox now (toptions\<lparr>opt_maxLength := Some 0\<rparr>) =
     P5TextBox now (toptions\<lparr>opt_maxLength := None\<rparr>) \<and>
   P5Component now (options\<lparr>opt_left := Some 0\<rparr>) =
     P5Component now (options\<lparr>opt_left := None\<rparr>) \<and>
   P5Component now (options\<lparr>opt_top := Some 0\<rparr>) =
     P5Component now (options\<lparr>opt_top := None\<rparr>) \<and>
   P5Component now (options\<lparr>opt_width := Some 0\<rparr>) =
     P5Component now (options\<lparr>opt_width := None\<rparr>) \<and>
   P5Component now (options\<lparr>opt_height := Some 0\<rparr>) =
     P5Component now (options\<lparr>opt_height := None\<rparr>) \<and>
   P5Component now (options\<lparr>opt_fontSize := Some 0\<rparr>) =
     P5Component now (options\<lparr>opt_fontSize := None\<rparr>) \<and>
   P5Component now (options\<lparr>opt_borderWidth := Some 0\<rparr>) =
     P5Component now (options\<lparr>opt_borderWidth := None\<rparr>) \<and>
   P5Component now (options\<lparr>opt_tabIndex := Some 0\<rparr>) =
     P5Component now (options\<lparr>opt_tabIndex := None\<rparr>)"
  by (simp add: option_defs constructor_defs)

theorem zero_option_takes_default_witness:
  "maxLength (P5TextBox ''0'' (no_textbox_options\<lparr>opt_maxLength := Some 0\<rparr>)) = 255 \<and>
   borderWidth (P5Component ''0'' (no_options\<lparr>opt_borderWidth := Some 0\<rparr>)) = 1 \<and>
   fontSize (P5Component ''0'' (no_options\<lparr>opt_fontSize := Some 0\<rparr>)) = 14 \<and>
   enabled (P5Component ''0'' (no_options\<lparr>opt_enabled := Some False\<rparr>)) = False \<and>
   visible (P5Component ''0'' (no_options\<lparr>opt_visible := Some False\<rparr>)) = False"
  using zero_option_takes_default [of "''0''" no_textbox_options no_options]
  by blast

section \<open>Listener isolation\<close>



section \<open>Serialization round trip\<close>

lemmas button_constructor_defs =
  P5Button_def button_super_options_def button.fields_def no_button_options_def
  button_options.fields_def

lemmas label_constructor_defs =
  P5Label_def label_super_options_def label.fields_def no_label_options_def
  label_options.fields_def

lemmas setter_defs =
  set_name_def set_text_def set_left_def set_top_def set_width_def set_height_def
  set_enabled_def set_visible_def set_backColor_def set_foreColor_def set_fontSize_def
  set_fontFamily_def set_borderColor_def set_borderWidth_def

lemmas button_setter_defs =
  set_hoverColor_def set_activeColor_def set_disabledColor_def set_cornerRadius_def

lemmas textbox_setter_defs =
  set_placeholder_def set_maxLength_def set_readOnly_def set_passwordChar_def
  set_multiline_def set_textAlign_def

lemmas label_setter_defs =
  set_lbl_textAlign_def set_verticalAlign_def set_autoSize_def set_wordWrap_def
  set_fontStyle_def set_underline_def set_strikethrough_def label_set_text_def adjustSize_def

lemmas with_defs = with_str_def with_num_def with_bool_def with_str_or_null_def

lemmas json_defs = toJSON_def button_toJSON_def textbox_toJSON_def label_toJSON_def

lemmas own_defs = component_own_def button_own_def textbox_own_def label_own_def

lemmas assign_defs =
  component_assign_def button_assign_def textbox_assign_def label_assign_def

lemmas fromJSON_defs = fromJSON_def button_fromJSON_def textbox_fromJSON_def label_fromJSON_def

text \<open>
  The setters branch on whether the p5 instance and the canvas exist; with these fixed,
  \<open>fromJSON\<close> on the record of \<open>toJSON\<close> is a straight run of setter calls.
\<close>

lemma round_trip_component:
  "map_assigned toJSON (fromJSON (toJSON c) c) = Assigned (toJSON c)"
proof (cases "p5Instance c"; cases "canvas c")
qed (simp_all add: fromJSON_defs json_defs own_defs assign_defs with_defs setter_defs
       effect_defs Let_def)

lemma round_trip_button:
  "map_assigned button_toJSON (button_fromJSON (button_toJSON b) b) = Assigned (button_toJSON b)"
proof (cases "p5Instance b"; cases "canvas b")
qed (simp_all add: fromJSON_defs json_defs own_defs assign_defs with_defs setter_defs
       button_setter_defs effect_defs Let_def)

lemma round_trip_textbox:
  "map_assigned textbox_toJSON (textbox_fromJSON (textbox_toJSON tb) tb) =
     Assigned (textbox_toJSON tb)"
proof (cases "p5Instance tb"; cases "canvas tb"; cases "passwordChar tb")
qed (simp_all add: fromJSON_defs json_defs own_defs assign_defs with_defs setter_defs
       textbox_setter_defs effect_defs Let_def)

lemma round_trip_label:
  "map_assigned label_toJSON (label_fromJSON metrics (label_toJSON l) l) =
     Assigned (label_toJSON
       (if autoSize l \<and> p5Instance l
        then l\<lparr>width := metrics (fontFamily l) (fontSize l) (text_p l) + lbl_padding l * 2,
               height := fontSize l + lbl_padding l * 2\<rparr>
        else l))"
proof (cases "p5Instance l"; cases "canvas l"; cases "autoSize l")
qed (simp_all add: fromJSON_defs json_defs own_defs assign_defs with_defs setter_defs
       label_setter_defs effect_defs Let_def)

text \<open>
  C5, as the claim states it, fails for a label with \<open>autoSize\<close>: \<open>fromJSON\<close> routes
  the key \<open>autoSize\<close> through its setter, which resizes the label to its text. The label
  \<open>new P5Label({autoSize: true})\<close> whose width was then set to 500 has, in a font whose
  glyphs are 7 wide, the width 35 after \<open>fromJSON(toJSON())\<close>.
\<close>

theorem label_round_trip_resizes:
  "width sized_label = 500 \<and>
   map_assigned width (label_fromJSON fixed_metrics (label_toJSON sized_label) sized_label) =
     Assigned 35"
  by (simp add: sized_label_def fromJSON_defs json_defs own_defs assign_defs with_defs
      setter_defs label_setter_defs effect_defs Let_def option_defs constructor_defs
      label_constructor_defs fixed_metrics_def)

text \<open>
  C5, amended. For a base component, a button and a text box, \<open>fromJSON\<close> on the
  record of \<open>toJSON\<close> returns and the record of \<open>toJSON\<close> is the same afterwards: every
  serialized property has the value it had. For a label it is the same record when
  \<open>autoSize\<close> is false or the p5 instance is gone; with \<open>autoSize\<close> and a p5 instance,
  every serialized property but \<open>width\<close> and \<open>height\<close> has the value it had, and these
  two are the measured width of the text plus twice the padding, and the font size plus
  twice the padding.
\<close>

theorem round_trip_serialized_properties:
  "map_assigned toJSON (fromJSON (toJSON c) c) = Assigned (toJSON c) \<and>
   map_assigned button_toJSON (button_fromJSON (button_toJSON b) b) =
     Assigned (button_toJSON b) \<and>
   map_assigned textbox_toJSON (textbox_fromJSON (textbox_toJSON tb) tb) =
     Assigned (textbox_toJSON tb) \<and>
   map_assigned label_toJSON (label_fromJSON metrics (label_toJSON l) l) =
     Assigned (label_toJSON
       (if autoSize l \<and> p5Instance l
        then l\<lparr>width := metrics (fontFamily l) (fontSize l) (text_p l) + lbl_padding l * 2,
               height := fontSize l + lbl_padding l * 2\<rparr>
        else l))"
  by (intro conjI round_trip_component round_trip_button round_trip_textbox round_trip_label)

theorem round_trip_serialized_properties_witness:
  "map_assigned toJSON (fromJSON (toJSON (P5Component ''0'' no_options))
      (P5Component ''0'' no_options)) =
     Assigned (toJSON (P5Component ''0'' no_options)) \<and>
   map_assigned button_toJSON (button_fromJSON (button_toJSON (P5Button ''0'' no_button_options))
      (P5Button ''0'' no_button_options)) =
     Assigned (button_toJSON (P5Button ''0'' no_button_options)) \<and>
   map_assigned textbox_toJSON
     (textbox_fromJSON (textbox_toJSON (P5TextBox ''0'' no_textbox_options))
        (P5TextBox ''0'' no_textbox_options)) =
     Assigned (textbox_toJSON (P5TextBox ''0'' no_textbox_options)) \<and>
   map_assigned label_toJSON
     (label_fromJSON fixed_metrics (label_toJSON (P5Label ''0'' no_label_options))
        (P5Label ''0'' no_label_options)) =
     Assigned (label_toJSON (P5Label ''0'' no_label_options)) \<and>
   map_assigned label_toJSON
     (label_fromJSON fixed_metrics (label_toJSON sized_label) sized_label) =
     Assigned (label_toJSON (sized_label\<lparr>width := 35, height := 14\<rparr>))"
proof -
  have plain: "\<not> autoSize (P5Label ''0'' no_label_options)"
    by (simp add: option_defs constructor_defs label_constructor_defs)
  have sized: "autoSize sized_label" "p5Instance sized_label" "fontSize sized_label = 14"
    "lbl_padding sized_label = 0"
    by (simp_all add: sized_label_def set_width_def effect_defs option_defs constructor_defs
        label_constructor_defs)
  have measured: "fixed_metrics family fsize (text_p sized_label) = 35" for family fsize
    by (simp add: sized_label_def set_width_def effect_defs option_defs constructor_defs
        label_constructor_defs fixed_metrics_def)
  show ?thesis
    using round_trip_serialized_properties
      [of "P5Component ''0'' no_options" "P5Button ''0'' no_button_options"
          "P5TextBox ''0'' no_textbox_options" fixed_metrics "P5Label ''0'' no_label_options"]
      round_trip_serialized_properties
      [of "P5Component ''0'' no_options" "P5Button ''0'' no_button_options"
          "P5TextBox ''0'' no_textbox_options" fixed_metrics sized_label]
    by (simp add: plain sized measured)
qed

end
